theory Spec2Isabelle
  imports Complex_Main
begin

section \<open>The expression type of the host framework\<close>

text \<open>
  Modelled from the spec: the expression type of the \<^verbatim>\<open>pybamm\<close> package
  (\<^verbatim>\<open>pybamm.Symbol\<close> and its subclasses), whose code is not part of this module. The
  spec describes it as a symbolic expression tree with broadcasting over named spatial
  domains, a spatial integration operator and a boundary-value extraction operator. The
  submodel \<^verbatim>\<open>pybamm/models/submodels/potential.py\<close> builds expressions with
  \<^verbatim>\<open>pybamm.Broadcast(child, domain)\<close>, \<^verbatim>\<open>pybamm.Integral(child, variable)\<close>,
  \<^verbatim>\<open>pybamm.BoundaryValue(child, side)\<close> and the overloaded operators \<^verbatim>\<open>+\<close>, \<^verbatim>\<open>-\<close>,
  \<^verbatim>\<open>*\<close>, \<^verbatim>\<open>/\<close>; each such call of the source is one node here. \<open>Symbol name\<close> is a
  leaf: an expression that this module receives and does not look into (a variable, a
  parameter, a spatial variable).
\<close>

datatype symbol =
    Symbol string
  | Broadcast symbol "string list"
  | Integral symbol symbol
  | BoundaryValue symbol string
  | Addition symbol symbol
  | Subtraction symbol symbol
  | Multiplication symbol symbol
  | Division symbol symbol

text \<open>
  What the two methods read from the \<^verbatim>\<open>pybamm\<close> package, whose code is not part of
  this module, taken as a parameter: \<^verbatim>\<open>pybamm.standard_spatial_vars.x_n\<close> and
  \<^verbatim>\<open>x_p\<close>, and the \<^verbatim>\<open>domain\<close> attribute of an expression (a list of domain names).
\<close>

record framework =
  standard_spatial_vars_x_n :: symbol
  standard_spatial_vars_x_p :: symbol
  domain :: "symbol \<Rightarrow> string list"

text \<open>
  Modelled from the spec: the parameter class behind \<^verbatim>\<open>self.set_of_parameters\<close>,
  whose code is not part of this module. The spec describes it as a parameter bundle
  exposing geometric lengths, reference potentials and a potential scale; these are the
  five attributes that the two methods read, each an expression.
\<close>

record param =
  l_n :: symbol
  l_p :: symbol
  U_n_ref :: symbol
  U_p_ref :: symbol
  potential_scale :: symbol

text \<open>\<^verbatim>\<open>class Potential(pybamm.SubModel)\<close>: its only attribute is the parameter set.\<close>

record Potential =
  set_of_parameters :: param

section \<open>The two methods\<close>

text \<open>
  \<^verbatim>\<open>Potential.get_derived_open_circuit_potentials(self, ocp_n, ocp_p)\<close>. The local
  names are the source's; the two conditional assignments rebind \<open>ocp_n\<close> and \<open>ocp_p\<close>.
  The returned dict literal is the list of its items, in the order written.
\<close>

definition get_derived_open_circuit_potentials ::
  "framework \<Rightarrow> Potential \<Rightarrow> symbol \<Rightarrow> symbol \<Rightarrow> (string \<times> symbol) list" where
  "get_derived_open_circuit_potentials pybamm self ocp_n ocp_p =
    (let param = set_of_parameters self;
         x_n = standard_spatial_vars_x_n pybamm;
         x_p = standard_spatial_vars_x_p pybamm;
         ocp_n = (if domain pybamm ocp_n = []
                  then Broadcast ocp_n [''negative electrode''] else ocp_n);
         ocp_p = (if domain pybamm ocp_p = []
                  then Broadcast ocp_p [''positive electrode''] else ocp_p);
         ocp_n_av = Division (Integral ocp_n x_n) (l_n param);
         ocp_p_av = Division (Integral ocp_p x_p) (l_p param);
         ocp_n_left = BoundaryValue ocp_n ''left'';
         ocp_p_right = BoundaryValue ocp_p ''right'';
         ocv_av = Subtraction ocp_p_av ocp_n_av;
         ocv = Subtraction ocp_p_right ocp_n_left;
         ocp_n_dim = Addition (U_n_ref param) (Multiplication (potential_scale param) ocp_n);
         ocp_p_dim = Addition (U_p_ref param) (Multiplication (potential_scale param) ocp_p);
         ocp_n_av_dim =
           Addition (U_n_ref param) (Multiplication (potential_scale param) ocp_n_av);
         ocp_p_av_dim =
           Addition (U_p_ref param) (Multiplication (potential_scale param) ocp_p_av);
         ocp_n_left_dim =
           Addition (U_n_ref param) (Multiplication (potential_scale param) ocp_n_left);
         ocp_p_right_dim =
           Addition (U_p_ref param) (Multiplication (potential_scale param) ocp_p_right);
         ocv_av_dim = Subtraction ocp_p_av_dim ocp_n_av_dim;
         ocv_dim = Subtraction ocp_p_right_dim ocp_n_left_dim
     in [(''Negative electrode open circuit potential'', ocp_n),
         (''Positive electrode open circuit potential'', ocp_p),
         (''Average negative electrode open circuit potential'', ocp_n_av),
         (''Average positive electrode open circuit potential'', ocp_p_av),
         (''Average open circuit voltage'', ocv_av),
         (''Measured open circuit voltage'', ocv),
         (''Negative electrode open circuit potential [V]'', ocp_n_dim),
         (''Positive electrode open circuit potential [V]'', ocp_p_dim),
         (''Average negative electrode open circuit potential [V]'', ocp_n_av_dim),
         (''Average positive electrode open circuit potential [V]'', ocp_p_av_dim),
         (''Average open circuit voltage [V]'', ocv_av_dim),
         (''Measured open circuit voltage [V]'', ocv_dim)])"

text \<open>\<^verbatim>\<open>Potential.get_derived_reaction_overpotentials(self, eta_r_n, eta_r_p)\<close>.\<close>

definition get_derived_reaction_overpotentials ::
  "framework \<Rightarrow> Potential \<Rightarrow> symbol \<Rightarrow> symbol \<Rightarrow> (string \<times> symbol) list" where
  "get_derived_reaction_overpotentials pybamm self eta_r_n eta_r_p =
    (let param = set_of_parameters self;
         x_n = standard_spatial_vars_x_n pybamm;
         x_p = standard_spatial_vars_x_p pybamm;
         eta_r_n = (if domain pybamm eta_r_n = []
                    then Broadcast eta_r_n [''negative electrode''] else eta_r_n);
         eta_r_p = (if domain pybamm eta_r_p = []
                    then Broadcast eta_r_p [''positive electrode''] else eta_r_p);
         eta_r_n_av = Division (Integral eta_r_n x_n) (l_n param);
         eta_r_p_av = Division (Integral eta_r_p x_p) (l_p param);
         eta_r_av = Subtraction eta_r_p_av eta_r_n_av;
         eta_r_n_dim = Multiplication (potential_scale param) eta_r_n;
         eta_r_p_dim = Multiplication (potential_scale param) eta_r_p;
         eta_r_n_av_dim = Multiplication (potential_scale param) eta_r_n_av;
         eta_r_p_av_dim = Multiplication (potential_scale param) eta_r_p_av;
         eta_r_av_dim = Multiplication (potential_scale param) eta_r_av
     in [(''Negative reaction overpotential'', eta_r_n),
         (''Positive reaction overpotential'', eta_r_p),
         (''Average negative reaction overpotential'', eta_r_n_av),
         (''Average positive reaction overpotential'', eta_r_p_av),
         (''Average reaction overpotential'', eta_r_av),
         (''Negative reaction overpotential [V]'', eta_r_n_dim),
         (''Positive reaction overpotential [V]'', eta_r_p_dim),
         (''Average negative reaction overpotential [V]'', eta_r_n_av_dim),
         (''Average positive reaction overpotential [V]'', eta_r_p_av_dim),
         (''Average reaction overpotential [V]'', eta_r_av_dim)])"

text \<open>Reading a returned dict at a key: \<^verbatim>\<open>d[key]\<close>, with \<open>None\<close> for a missing key.\<close>

definition entry :: "(string \<times> symbol) list \<Rightarrow> string \<Rightarrow> symbol option" where
  "entry d k = map_of d k"

text \<open>
  The names of the dimensionless quantities, as the two dict literals write them; the
  name of the dimensional variant of a quantity is its name followed by \<^verbatim>\<open> [V]\<close>.
\<close>

definition open_circuit_names :: "string list" where
  "open_circuit_names =
    [''Negative electrode open circuit potential'',
     ''Positive electrode open circuit potential'',
     ''Average negative electrode open circuit potential'',
     ''Average positive electrode open circuit potential'',
     ''Average open circuit voltage'',
     ''Measured open circuit voltage'']"

definition reaction_overpotential_names :: "string list" where
  "reaction_overpotential_names =
    [''Negative reaction overpotential'',
     ''Positive reaction overpotential'',
     ''Average negative reaction overpotential'',
     ''Average positive reaction overpotential'',
     ''Average reaction overpotential'']"

definition volts :: "string \<Rightarrow> string" where
  "volts name = name @ '' [V]''"

section \<open>The value of an expression\<close>

text \<open>
  Modelled from the spec: the meaning of the framework's expression nodes, whose code
  (\<^verbatim>\<open>pybamm.Symbol\<close> and its subclasses) is not part of this module. An expression
  denotes a quantity that depends on a point \<open>x\<close> (of space and time). The four
  arithmetic nodes denote pointwise arithmetic on real numbers. What a leaf, a broadcast,
  an integral and a boundary value denote is left to the framework and taken as a
  parameter.
\<close>

record 'p operators =
  symbol_value :: "string \<Rightarrow> 'p \<Rightarrow> real"
  broadcast_value :: "('p \<Rightarrow> real) \<Rightarrow> string list \<Rightarrow> 'p \<Rightarrow> real"
  integral_value :: "('p \<Rightarrow> real) \<Rightarrow> symbol \<Rightarrow> 'p \<Rightarrow> real"
  boundary_value :: "('p \<Rightarrow> real) \<Rightarrow> string \<Rightarrow> 'p \<Rightarrow> real"

primrec evaluate :: "'p operators \<Rightarrow> symbol \<Rightarrow> 'p \<Rightarrow> real" where
  "evaluate ops (Symbol name) = symbol_value ops name"
| "evaluate ops (Broadcast child dm) = broadcast_value ops (evaluate ops child) dm"
| "evaluate ops (Integral child var) = integral_value ops (evaluate ops child) var"
| "evaluate ops (BoundaryValue child side) = boundary_value ops (evaluate ops child) side"
| "evaluate ops (Addition left right) = (\<lambda>x. evaluate ops left x + evaluate ops right x)"
| "evaluate ops (Subtraction left right) = (\<lambda>x. evaluate ops left x - evaluate ops right x)"
| "evaluate ops (Multiplication left right) =
     (\<lambda>x. evaluate ops left x * evaluate ops right x)"
| "evaluate ops (Division left right) = (\<lambda>x. evaluate ops left x / evaluate ops right x)"

text \<open>The number of boundary-value nodes in an expression.\<close>

primrec boundary_values :: "symbol \<Rightarrow> nat" where
  "boundary_values (Symbol name) = 0"
| "boundary_values (Broadcast child dm) = boundary_values child"
| "boundary_values (Integral child var) = boundary_values child + boundary_values var"
| "boundary_values (BoundaryValue child side) = Suc (boundary_values child)"
| "boundary_values (Addition left right) = boundary_values left + boundary_values right"
| "boundary_values (Subtraction left right) = boundary_values left + boundary_values right"
| "boundary_values (Multiplication left right) =
     boundary_values left + boundary_values right"
| "boundary_values (Division left right) = boundary_values left + boundary_values right"

section \<open>A call as a step on the store of objects\<close>

text \<open>
  The two definitions above give the expressions a call returns. To state what a call
  does to the objects it can reach, the same two methods are given once more at the
  level of Python objects: an expression is an object in a store, named by a
  reference, and its children are references to other objects.
\<close>

type_synonym ref = nat

text \<open>
  Modelled from the spec: an object of the framework's expression classes, whose code is
  not part of this module. One constructor for each class, with the references to the
  children where the tree has subtrees.
\<close>

datatype object =
    SymbolObject string
  | BroadcastObject ref "string list"
  | IntegralObject ref ref
  | BoundaryValueObject ref string
  | AdditionObject ref ref
  | SubtractionObject ref ref
  | MultiplicationObject ref ref
  | DivisionObject ref ref

text \<open>
  The store holds the expression objects in the order of their construction: the
  reference of an object is its position. It also holds what the methods read besides
  their arguments: the attributes of the submodel \<^verbatim>\<open>self\<close> and of its parameter
  object, and the two attributes of \<^verbatim>\<open>pybamm.standard_spatial_vars\<close>, each a
  reference to an expression object.
\<close>

record param_object =
  l_n_object :: ref
  l_p_object :: ref
  U_n_ref_object :: ref
  U_p_ref_object :: ref
  potential_scale_object :: ref

record Potential_object =
  set_of_parameters_object :: param_object

record standard_spatial_vars_object =
  x_n_object :: ref
  x_p_object :: ref

record store =
  heap :: "object list"
  submodel :: Potential_object
  standard_spatial_vars :: standard_spatial_vars_object

text \<open>
  Modelled from the spec: what a constructor of the framework does to the store. The
  spec allows the two methods no effect but the construction of expressions: a
  constructor call adds one object, under a fresh reference, and returns that reference.
\<close>

definition new :: "store \<Rightarrow> object \<Rightarrow> ref \<times> store" where
  "new s obj = (length (heap s), s\<lparr>heap := heap s @ [obj]\<rparr>)"

text \<open>Applying a binary node constructor to the expressions of two children.\<close>

definition both :: "('a \<Rightarrow> 'b \<Rightarrow> 'c) \<Rightarrow> 'a option \<Rightarrow> 'b option \<Rightarrow> 'c option" where
  "both f x y = (case x of None \<Rightarrow> None | Some u \<Rightarrow> map_option (f u) y)"

text \<open>
  The expression an object stands for, read back from the store. The result is \<open>None\<close>
  when the reference names no object of the store, or when an object refers to an
  object that is not older than itself, which no constructor call produces.
\<close>

function expression :: "object list \<Rightarrow> ref \<Rightarrow> symbol option" where
  "expression h r =
    (if r < length h then
       (case h ! r of
          SymbolObject name \<Rightarrow> Some (Symbol name)
        | BroadcastObject child dm \<Rightarrow>
            (if child < r then map_option (\<lambda>c. Broadcast c dm) (expression h child)
             else None)
        | IntegralObject child var \<Rightarrow>
            (if child < r \<and> var < r
             then both Integral (expression h child) (expression h var) else None)
        | BoundaryValueObject child side \<Rightarrow>
            (if child < r then map_option (\<lambda>c. BoundaryValue c side) (expression h child)
             else None)
        | AdditionObject left right \<Rightarrow>
            (if left < r \<and> right < r
             then both Addition (expression h left) (expression h right) else None)
        | SubtractionObject left right \<Rightarrow>
            (if left < r \<and> right < r
             then both Subtraction (expression h left) (expression h right) else None)
        | MultiplicationObject left right \<Rightarrow>
            (if left < r \<and> right < r
             then both Multiplication (expression h left) (expression h right) else None)
        | DivisionObject left right \<Rightarrow>
            (if left < r \<and> right < r
             then both Division (expression h left) (expression h right) else None))
     else None)"
  by pat_completeness auto
termination
  by (relation "measure (\<lambda>(h, r). r)") auto

declare expression.simps [simp del]

text \<open>
  Reading the attribute \<^verbatim>\<open>domain\<close> of the object behind a reference. The framework
  gives the domain of an expression; the read fails (\<open>None\<close>, the call raises) when
  the reference stands for no expression.
\<close>

definition domain_attribute :: "framework \<Rightarrow> store \<Rightarrow> ref \<Rightarrow> string list option" where
  "domain_attribute pybamm s r = map_option (domain pybamm) (expression (heap s) r)"

text \<open>
  \<^verbatim>\<open>Potential.get_derived_open_circuit_potentials\<close> on the store. Each statement of
  the source is one or two steps: an operator or constructor call is one \<open>new\<close>, with
  the operands of a statement evaluated from left to right, so that in
  \<^verbatim>\<open>param.U_n_ref + param.potential_scale * ocp_n\<close> the product is constructed before
  the sum. The result is the dict of references together with the store after the call,
  or \<open>None\<close> when the call raises.
\<close>

definition call_get_derived_open_circuit_potentials ::
  "framework \<Rightarrow> store \<Rightarrow> ref \<Rightarrow> ref \<Rightarrow> ((string \<times> ref) list \<times> store) option" where
  "call_get_derived_open_circuit_potentials pybamm s ocp_n ocp_p =
    (let param = set_of_parameters_object (submodel s);
         x_n = x_n_object (standard_spatial_vars s);
         x_p = x_p_object (standard_spatial_vars s)
     in case domain_attribute pybamm s ocp_n of
          None \<Rightarrow> None
        | Some domain_n \<Rightarrow>
     (let (ocp_n, s) =
            (if domain_n = [] then new s (BroadcastObject ocp_n [''negative electrode''])
             else (ocp_n, s))
      in case domain_attribute pybamm s ocp_p of
           None \<Rightarrow> None
         | Some domain_p \<Rightarrow>
      (let (ocp_p, s) =
             (if domain_p = [] then new s (BroadcastObject ocp_p [''positive electrode''])
              else (ocp_p, s));
           (integral_n, s) = new s (IntegralObject ocp_n x_n);
           (ocp_n_av, s) = new s (DivisionObject integral_n (l_n_object param));
           (integral_p, s) = new s (IntegralObject ocp_p x_p);
           (ocp_p_av, s) = new s (DivisionObject integral_p (l_p_object param));
           (ocp_n_left, s) = new s (BoundaryValueObject ocp_n ''left'');
           (ocp_p_right, s) = new s (BoundaryValueObject ocp_p ''right'');
           (ocv_av, s) = new s (SubtractionObject ocp_p_av ocp_n_av);
           (ocv, s) = new s (SubtractionObject ocp_p_right ocp_n_left);
           (scaled, s) = new s (MultiplicationObject (potential_scale_object param) ocp_n);
           (ocp_n_dim, s) = new s (AdditionObject (U_n_ref_object param) scaled);
           (scaled, s) = new s (MultiplicationObject (potential_scale_object param) ocp_p);
           (ocp_p_dim, s) = new s (AdditionObject (U_p_ref_object param) scaled);
           (scaled, s) = new s (MultiplicationObject (potential_scale_object param) ocp_n_av);
           (ocp_n_av_dim, s) = new s (AdditionObject (U_n_ref_object param) scaled);
           (scaled, s) = new s (MultiplicationObject (potential_scale_object param) ocp_p_av);
           (ocp_p_av_dim, s) = new s (AdditionObject (U_p_ref_object param) scaled);
           (scaled, s) =
             new s (MultiplicationObject (potential_scale_object param) ocp_n_left);
           (ocp_n_left_dim, s) = new s (AdditionObject (U_n_ref_object param) scaled);
           (scaled, s) =
             new s (MultiplicationObject (potential_scale_object param) ocp_p_right);
           (ocp_p_right_dim, s) = new s (AdditionObject (U_p_ref_object param) scaled);
           (ocv_av_dim, s) = new s (SubtractionObject ocp_p_av_dim ocp_n_av_dim);
           (ocv_dim, s) = new s (SubtractionObject ocp_p_right_dim ocp_n_left_dim)
       in Some
            ([(''Negative electrode open circuit potential'', ocp_n),
              (''Positive electrode open circuit potential'', ocp_p),
              (''Average negative electrode open circuit potential'', ocp_n_av),
              (''Average positive electrode open circuit potential'', ocp_p_av),
              (''Average open circuit voltage'', ocv_av),
              (''Measured open circuit voltage'', ocv),
              (''Negative electrode open circuit potential [V]'', ocp_n_dim),
              (''Positive electrode open circuit potential [V]'', ocp_p_dim),
              (''Average negative electrode open circuit potential [V]'', ocp_n_av_dim),
              (''Average positive electrode open circuit potential [V]'', ocp_p_av_dim),
              (''Average open circuit voltage [V]'', ocv_av_dim),
              (''Measured open circuit voltage [V]'', ocv_dim)], s))))"

text \<open>\<^verbatim>\<open>Potential.get_derived_reaction_overpotentials\<close> on the store.\<close>

definition call_get_derived_reaction_overpotentials ::
  "framework \<Rightarrow> store \<Rightarrow> ref \<Rightarrow> ref \<Rightarrow> ((string \<times> ref) list \<times> store) option" where
  "call_get_derived_reaction_overpotentials pybamm s eta_r_n eta_r_p =
    (let param = set_of_parameters_object (submodel s);
         x_n = x_n_object (standard_spatial_vars s);
         x_p = x_p_object (standard_spatial_vars s)
     in case domain_attribute pybamm s eta_r_n of
          None \<Rightarrow> None
        | Some domain_n \<Rightarrow>
     (let (eta_r_n, s) =
            (if domain_n = [] then new s (BroadcastObject eta_r_n [''negative electrode''])
             else (eta_r_n, s))
      in case domain_attribute pybamm s eta_r_p of
           None \<Rightarrow> None
         | Some domain_p \<Rightarrow>
      (let (eta_r_p, s) =
             (if domain_p = [] then new s (BroadcastObject eta_r_p [''positive electrode''])
              else (eta_r_p, s));
           (integral_n, s) = new s (IntegralObject eta_r_n x_n);
           (eta_r_n_av, s) = new s (DivisionObject integral_n (l_n_object param));
           (integral_p, s) = new s (IntegralObject eta_r_p x_p);
           (eta_r_p_av, s) = new s (DivisionObject integral_p (l_p_object param));
           (eta_r_av, s) = new s (SubtractionObject eta_r_p_av eta_r_n_av);
           (eta_r_n_dim, s) =
             new s (MultiplicationObject (potential_scale_object param) eta_r_n);
           (eta_r_p_dim, s) =
             new s (MultiplicationObject (potential_scale_object param) eta_r_p);
           (eta_r_n_av_dim, s) =
             new s (MultiplicationObject (potential_scale_object param) eta_r_n_av);
           (eta_r_p_av_dim, s) =
             new s (MultiplicationObject (potential_scale_object param) eta_r_p_av);
           (eta_r_av_dim, s) =
             new s (MultiplicationObject (potential_scale_object param) eta_r_av)
       in Some
            ([(''Negative reaction overpotential'', eta_r_n),
              (''Positive reaction overpotential'', eta_r_p),
              (''Average negative reaction overpotential'', eta_r_n_av),
              (''Average positive reaction overpotential'', eta_r_p_av),
              (''Average reaction overpotential'', eta_r_av),
              (''Negative reaction overpotential [V]'', eta_r_n_dim),
              (''Positive reaction overpotential [V]'', eta_r_p_dim),
              (''Average negative reaction overpotential [V]'', eta_r_n_av_dim),
              (''Average positive reaction overpotential [V]'', eta_r_p_av_dim),
              (''Average reaction overpotential [V]'', eta_r_av_dim)], s))))"

text \<open>
  A store represents a framework and a submodel of the first model when the parameter
  attributes and the two spatial variables refer to objects that stand for the
  corresponding expressions.
\<close>

definition represents :: "store \<Rightarrow> framework \<Rightarrow> Potential \<Rightarrow> bool" where
  "represents s pybamm self =
    (let h = heap s; P = set_of_parameters_object (submodel s)
     in expression h (l_n_object P) = Some (l_n (set_of_parameters self)) \<and>
        expression h (l_p_object P) = Some (l_p (set_of_parameters self)) \<and>
        expression h (U_n_ref_object P) = Some (U_n_ref (set_of_parameters self)) \<and>
        expression h (U_p_ref_object P) = Some (U_p_ref (set_of_parameters self)) \<and>
        expression h (potential_scale_object P)
          = Some (potential_scale (set_of_parameters self)) \<and>
        expression h (x_n_object (standard_spatial_vars s))
          = Some (standard_spatial_vars_x_n pybamm) \<and>
        expression h (x_p_object (standard_spatial_vars s))
          = Some (standard_spatial_vars_x_p pybamm))"

text \<open>The expressions behind a dict of references.\<close>

definition read :: "store \<Rightarrow> (string \<times> ref) list \<Rightarrow> (string \<times> symbol option) list" where
  "read s d = map (\<lambda>(name, r). (name, expression (heap s) r)) d"

section \<open>Concrete inputs\<close>

text \<open>
  A small instance used to run the two methods: the leaves named \<open>U_n\<close> and \<open>U_p\<close>
  are tagged with their electrode's domain, every other expression has the empty domain.
\<close>

definition example_framework :: framework where
  "example_framework =
    \<lparr>standard_spatial_vars_x_n = Symbol ''x_n'',
     standard_spatial_vars_x_p = Symbol ''x_p'',
     domain = (\<lambda>s. if s = Symbol ''U_n'' then [''negative electrode'']
                    else if s = Symbol ''U_p'' then [''positive electrode'']
                    else [])\<rparr>"

definition example_submodel :: Potential where
  "example_submodel =
    \<lparr>set_of_parameters =
       \<lparr>l_n = Symbol ''l_n'', l_p = Symbol ''l_p'',
        U_n_ref = Symbol ''U_n_ref'', U_p_ref = Symbol ''U_p_ref'',
        potential_scale = Symbol ''potential_scale''\<rparr>\<rparr>"

text \<open>
  Values at a single point: the reference potentials are 1 and 4, the potential scale
  is 2, the two lengths are 1, the leaf \<open>c_n\<close> is 1 and every other leaf is 3; a
  broadcast, an integral and a boundary value keep the value of their child.
\<close>

definition example_operators :: "unit operators" where
  "example_operators =
    \<lparr>symbol_value = (\<lambda>name x.
        if name = ''U_n_ref'' then 1 else if name = ''U_p_ref'' then 4
        else if name = ''potential_scale'' then 2
        else if name = ''l_n'' then 1 else if name = ''l_p'' then 1
        else if name = ''c_n'' then 1 else 3),
     broadcast_value = (\<lambda>f dm. f),
     integral_value = (\<lambda>f var. f),
     boundary_value = (\<lambda>f side. f)\<rparr>"

text \<open>
  A store with nine leaf objects: the two arguments \<open>c_n\<close> (reference 0) and \<open>U_p\<close>
  (reference 1), the five parameters and the two spatial variables.
\<close>

definition example_store :: store where
  "example_store =
    \<lparr>heap =
       [SymbolObject ''c_n'', SymbolObject ''U_p'', SymbolObject ''l_n'',
        SymbolObject ''l_p'', SymbolObject ''U_n_ref'', SymbolObject ''U_p_ref'',
        SymbolObject ''potential_scale'', SymbolObject ''x_n'', SymbolObject ''x_p''],
     submodel =
       \<lparr>set_of_parameters_object =
          \<lparr>l_n_object = 2, l_p_object = 3, U_n_ref_object = 4, U_p_ref_object = 5,
           potential_scale_object = 6\<rparr>\<rparr>,
     standard_spatial_vars = \<lparr>x_n_object = 7, x_p_object = 8\<rparr>\<rparr>"

section \<open>Lookups in the returned dicts\<close>

lemma broadcast_differs: "Broadcast a d \<noteq> a"
proof
  assume "Broadcast a d = a"
  then have "size (Broadcast a d) = size a" by simp
  then show False by simp
qed

lemma open_circuit_entries:
  fixes pb self a b
  defines "r \<equiv> get_derived_open_circuit_potentials pb self a b"
    and "n \<equiv> (if domain pb a = [] then Broadcast a [''negative electrode''] else a)"
    and "p \<equiv> (if domain pb b = [] then Broadcast b [''positive electrode''] else b)"
    and "P \<equiv> set_of_parameters self"
    and "xn \<equiv> standard_spatial_vars_x_n pb"
    and "xp \<equiv> standard_spatial_vars_x_p pb"
  shows "entry r ''Negative electrode open circuit potential'' = Some n"
    and "entry r ''Positive electrode open circuit potential'' = Some p"
    and "entry r ''Average negative electrode open circuit potential''
           = Some (Division (Integral n xn) (l_n P))"
    and "entry r ''Average positive electrode open circuit potential''
           = Some (Division (Integral p xp) (l_p P))"
    and "entry r ''Average open circuit voltage''
           = Some (Subtraction (Division (Integral p xp) (l_p P))
                               (Division (Integral n xn) (l_n P)))"
    and "entry r ''Measured open circuit voltage''
           = Some (Subtraction (BoundaryValue p ''right'') (BoundaryValue n ''left''))"
    and "entry r ''Negative electrode open circuit potential [V]''
           = Some (Addition (U_n_ref P) (Multiplication (potential_scale P) n))"
    and "entry r ''Positive electrode open circuit potential [V]''
           = Some (Addition (U_p_ref P) (Multiplication (potential_scale P) p))"
    and "entry r ''Average negative electrode open circuit potential [V]''
           = Some (Addition (U_n_ref P)
                     (Multiplication (potential_scale P) (Division (Integral n xn) (l_n P))))"
    and "entry r ''Average positive electrode open circuit potential [V]''
           = Some (Addition (U_p_ref P)
                     (Multiplication (potential_scale P) (Division (Integral p xp) (l_p P))))"
    and "entry r ''Average open circuit voltage [V]''
           = Some (Subtraction
                     (Addition (U_p_ref P)
                        (Multiplication (potential_scale P) (Division (Integral p xp) (l_p P))))
                     (Addition (U_n_ref P)
                        (Multiplication (potential_scale P) (Division (Integral n xn) (l_n P)))))"
    and "entry r ''Measured open circuit voltage [V]''
           = Some (Subtraction
                     (Addition (U_p_ref P)
                        (Multiplication (potential_scale P) (BoundaryValue p ''right'')))
                     (Addition (U_n_ref P)
                        (Multiplication (potential_scale P) (BoundaryValue n ''left''))))"
  unfolding r_def n_def p_def P_def xn_def xp_def
  by (simp_all add: entry_def get_derived_open_circuit_potentials_def Let_def)

lemma reaction_overpotential_entries:
  fixes pb self a b
  defines "r \<equiv> get_derived_reaction_overpotentials pb self a b"
    and "n \<equiv> (if domain pb a = [] then Broadcast a [''negative electrode''] else a)"
    and "p \<equiv> (if domain pb b = [] then Broadcast b [''positive electrode''] else b)"
    and "P \<equiv> set_of_parameters self"
    and "xn \<equiv> standard_spatial_vars_x_n pb"
    and "xp \<equiv> standard_spatial_vars_x_p pb"
  shows "entry r ''Negative reaction overpotential'' = Some n"
    and "entry r ''Positive reaction overpotential'' = Some p"
    and "entry r ''Average negative reaction overpotential''
           = Some (Division (Integral n xn) (l_n P))"
    and "entry r ''Average positive reaction overpotential''
           = Some (Division (Integral p xp) (l_p P))"
    and "entry r ''Average reaction overpotential''
           = Some (Subtraction (Division (Integral p xp) (l_p P))
                               (Division (Integral n xn) (l_n P)))"
    and "entry r ''Negative reaction overpotential [V]''
           = Some (Multiplication (potential_scale P) n)"
    and "entry r ''Positive reaction overpotential [V]''
           = Some (Multiplication (potential_scale P) p)"
    and "entry r ''Average negative reaction overpotential [V]''
           = Some (Multiplication (potential_scale P) (Division (Integral n xn) (l_n P)))"
    and "entry r ''Average positive reaction overpotential [V]''
           = Some (Multiplication (potential_scale P) (Division (Integral p xp) (l_p P)))"
    and "entry r ''Average reaction overpotential [V]''
           = Some (Multiplication (potential_scale P)
                     (Subtraction (Division (Integral p xp) (l_p P))
                                  (Division (Integral n xn) (l_n P))))"
  unfolding r_def n_def p_def P_def xn_def xp_def
  by (simp_all add: entry_def get_derived_reaction_overpotentials_def Let_def)

lemma open_circuit_keys:
  "map fst (get_derived_open_circuit_potentials pb self a b)
     = open_circuit_names @ map volts open_circuit_names"
  by (simp add: get_derived_open_circuit_potentials_def Let_def open_circuit_names_def
      volts_def)

lemma reaction_overpotential_keys:
  "map fst (get_derived_reaction_overpotentials pb self a b)
     = reaction_overpotential_names @ map volts reaction_overpotential_names"
  by (simp add: get_derived_reaction_overpotentials_def Let_def
      reaction_overpotential_names_def volts_def)

section \<open>Open-circuit potentials\<close>

text \<open>
  C2. For every pair of input expressions \<open>a\<close>, \<open>b\<close>, with \<open>n\<close> and \<open>p\<close> the
  negative-electrode and positive-electrode expressions (the input, broadcast when its
  domain is empty): the method takes the boundary value of \<open>n\<close> at the left face and of
  \<open>p\<close> at the right face; the entry \<open>Measured open circuit voltage\<close> is the boundary
  value of \<open>p\<close> minus that of \<open>n\<close>, and the entry \<open>Average open circuit voltage\<close> is the
  spatial average of \<open>p\<close> minus the spatial average of \<open>n\<close>, these two averages being
  the two average entries.
\<close>

theorem measured_and_average_open_circuit_voltage:
  fixes pb self a b
  defines "r \<equiv> get_derived_open_circuit_potentials pb self a b"
    and "n \<equiv> (if domain pb a = [] then Broadcast a [''negative electrode''] else a)"
    and "p \<equiv> (if domain pb b = [] then Broadcast b [''positive electrode''] else b)"
    and "n_av \<equiv>
      Division
        (Integral (if domain pb a = [] then Broadcast a [''negative electrode''] else a)
           (standard_spatial_vars_x_n pb))
        (l_n (set_of_parameters self))"
    and "p_av \<equiv>
      Division
        (Integral (if domain pb b = [] then Broadcast b [''positive electrode''] else b)
           (standard_spatial_vars_x_p pb))
        (l_p (set_of_parameters self))"
  shows "entry r ''Negative electrode open circuit potential'' = Some n \<and>
      entry r ''Positive electrode open circuit potential'' = Some p \<and>
      entry r ''Average negative electrode open circuit potential'' = Some n_av \<and>
      entry r ''Average positive electrode open circuit potential'' = Some p_av \<and>
      entry r ''Measured open circuit voltage''
        = Some (Subtraction (BoundaryValue p ''right'') (BoundaryValue n ''left'')) \<and>
      entry r ''Average open circuit voltage'' = Some (Subtraction p_av n_av)"
  unfolding r_def n_def p_def n_av_def p_av_def by (simp add: open_circuit_entries)

section \<open>Spatial averages\<close>

text \<open>
  C3. In both methods the average entry of an electrode is the integral of the electrode's
  expression (broadcast when its domain is empty) over that electrode's spatial variable,
  divided by that electrode's length: \<open>l_n\<close> for the negative electrode, \<open>l_p\<close> for the
  positive one.
\<close>

theorem average_is_length_normalized_integral:
  fixes pb self a b
  defines "n \<equiv> (if domain pb a = [] then Broadcast a [''negative electrode''] else a)"
    and "p \<equiv> (if domain pb b = [] then Broadcast b [''positive electrode''] else b)"
    and "P \<equiv> set_of_parameters self"
  shows "entry (get_derived_open_circuit_potentials pb self a b)
           ''Average negative electrode open circuit potential''
         = Some (Division (Integral n (standard_spatial_vars_x_n pb)) (l_n P)) \<and>
       entry (get_derived_open_circuit_potentials pb self a b)
           ''Average positive electrode open circuit potential''
         = Some (Division (Integral p (standard_spatial_vars_x_p pb)) (l_p P)) \<and>
       entry (get_derived_reaction_overpotentials pb self a b)
           ''Average negative reaction overpotential''
         = Some (Division (Integral n (standard_spatial_vars_x_n pb)) (l_n P)) \<and>
       entry (get_derived_reaction_overpotentials pb self a b)
           ''Average positive reaction overpotential''
         = Some (Division (Integral p (standard_spatial_vars_x_p pb)) (l_p P))"
  unfolding n_def p_def P_def
  by (simp add: open_circuit_entries reaction_overpotential_entries)

section \<open>Broadcasting\<close>

text \<open>
  C4. In both methods the expression used for an electrode is the broadcast of the input
  to that electrode's domain (\<open>negative electrode\<close> for the first argument,
  \<open>positive electrode\<close> for the second) exactly when the input's domain is the empty
  list, and the input itself exactly when its domain is not empty.
\<close>

theorem broadcast_iff_domain_empty:
  fixes pb self a b
  defines "ocp \<equiv> get_derived_open_circuit_potentials pb self a b"
    and "eta \<equiv> get_derived_reaction_overpotentials pb self a b"
  shows "entry ocp ''Negative electrode open circuit potential''
           = Some (if domain pb a = [] then Broadcast a [''negative electrode''] else a) \<and>
      entry ocp ''Positive electrode open circuit potential''
           = Some (if domain pb b = [] then Broadcast b [''positive electrode''] else b) \<and>
      entry eta ''Negative reaction overpotential''
           = Some (if domain pb a = [] then Broadcast a [''negative electrode''] else a) \<and>
      entry eta ''Positive reaction overpotential''
           = Some (if domain pb b = [] then Broadcast b [''positive electrode''] else b) \<and>
      (entry ocp ''Negative electrode open circuit potential''
            = Some (Broadcast a [''negative electrode'']) \<longleftrightarrow> domain pb a = []) \<and>
      (entry ocp ''Positive electrode open circuit potential''
            = Some (Broadcast b [''positive electrode'']) \<longleftrightarrow> domain pb b = []) \<and>
      (entry eta ''Negative reaction overpotential''
            = Some (Broadcast a [''negative electrode'']) \<longleftrightarrow> domain pb a = []) \<and>
      (entry eta ''Positive reaction overpotential''
            = Some (Broadcast b [''positive electrode'']) \<longleftrightarrow> domain pb b = []) \<and>
      (entry ocp ''Negative electrode open circuit potential'' = Some a
         \<longleftrightarrow> domain pb a \<noteq> []) \<and>
      (entry ocp ''Positive electrode open circuit potential'' = Some b
         \<longleftrightarrow> domain pb b \<noteq> []) \<and>
      (entry eta ''Negative reaction overpotential'' = Some a \<longleftrightarrow> domain pb a \<noteq> []) \<and>
      (entry eta ''Positive reaction overpotential'' = Some b \<longleftrightarrow> domain pb b \<noteq> [])"
  unfolding ocp_def eta_def
  using broadcast_differs [of a "[''negative electrode'']"]
    broadcast_differs [of b "[''positive electrode'']"]
  by (auto simp add: open_circuit_entries reaction_overpotential_entries)

text \<open>
  C9. In both methods, an input whose domain is not empty is returned as it is under the
  electrode's own name: the entry is the input expression, with no node around it.
\<close>

theorem tagged_input_returned_unchanged:
  "(domain pb a \<noteq> [] \<longrightarrow>
      entry (get_derived_open_circuit_potentials pb self a b)
        ''Negative electrode open circuit potential'' = Some a) \<and>
   (domain pb b \<noteq> [] \<longrightarrow>
      entry (get_derived_open_circuit_potentials pb self a b)
        ''Positive electrode open circuit potential'' = Some b) \<and>
   (domain pb a \<noteq> [] \<longrightarrow>
      entry (get_derived_reaction_overpotentials pb self a b)
        ''Negative reaction overpotential'' = Some a) \<and>
   (domain pb b \<noteq> [] \<longrightarrow>
      entry (get_derived_reaction_overpotentials pb self a b)
        ''Positive reaction overpotential'' = Some b)"
  by (simp add: open_circuit_entries reaction_overpotential_entries)

theorem tagged_input_returned_unchanged_witness:
  "domain example_framework (Symbol ''U_n'') \<noteq> [] \<and>
   domain example_framework (Symbol ''U_p'') \<noteq> [] \<and>
   entry (get_derived_open_circuit_potentials example_framework example_submodel
            (Symbol ''U_n'') (Symbol ''U_p''))
     ''Negative electrode open circuit potential'' = Some (Symbol ''U_n'') \<and>
   entry (get_derived_open_circuit_potentials example_framework example_submodel
            (Symbol ''U_n'') (Symbol ''U_p''))
     ''Positive electrode open circuit potential'' = Some (Symbol ''U_p'') \<and>
   entry (get_derived_reaction_overpotentials example_framework example_submodel
            (Symbol ''U_n'') (Symbol ''U_p''))
     ''Negative reaction overpotential'' = Some (Symbol ''U_n'') \<and>
   entry (get_derived_reaction_overpotentials example_framework example_submodel
            (Symbol ''U_n'') (Symbol ''U_p''))
     ''Positive reaction overpotential'' = Some (Symbol ''U_p'')"
proof -
  have n: "domain example_framework (Symbol ''U_n'') \<noteq> []"
    by (simp add: example_framework_def)
  have p: "domain example_framework (Symbol ''U_p'') \<noteq> []"
    by (simp add: example_framework_def)
  show ?thesis
    using n p
      tagged_input_returned_unchanged
        [of example_framework "Symbol ''U_n''" example_submodel "Symbol ''U_p''"]
    by blast
qed

section \<open>The returned names\<close>

text \<open>
  C5. For every pair of input expressions \<open>a\<close>, \<open>b\<close>, the dict returned by
  \<open>get_derived_open_circuit_potentials\<close> has exactly twelve entries under twelve
  different names, and they are: the two electrode potentials \<open>n\<close> and \<open>p\<close> (the input,
  broadcast when its domain is empty), their two spatial averages, the average and the
  measured open-circuit voltage, and under each of these six names followed by \<open>[V]\<close>
  the dimensional variant of the quantity.
\<close>

theorem open_circuit_twelve_entries:
  fixes pb self a b
  defines "r \<equiv> get_derived_open_circuit_potentials pb self a b"
    and "P \<equiv> set_of_parameters self"
    and "n \<equiv> (if domain pb a = [] then Broadcast a [''negative electrode''] else a)"
    and "p \<equiv> (if domain pb b = [] then Broadcast b [''positive electrode''] else b)"
    and "n_av \<equiv>
      Division
        (Integral (if domain pb a = [] then Broadcast a [''negative electrode''] else a)
           (standard_spatial_vars_x_n pb))
        (l_n (set_of_parameters self))"
    and "p_av \<equiv>
      Division
        (Integral (if domain pb b = [] then Broadcast b [''positive electrode''] else b)
           (standard_spatial_vars_x_p pb))
        (l_p (set_of_parameters self))"
  shows "length r = 12 \<and> distinct (map fst r) \<and>
    map fst r = open_circuit_names @ map volts open_circuit_names \<and>
    r =
      [(''Negative electrode open circuit potential'', n),
       (''Positive electrode open circuit potential'', p),
       (''Average negative electrode open circuit potential'', n_av),
       (''Average positive electrode open circuit potential'', p_av),
       (''Average open circuit voltage'', Subtraction p_av n_av),
       (''Measured open circuit voltage'',
          Subtraction (BoundaryValue p ''right'') (BoundaryValue n ''left'')),
       (''Negative electrode open circuit potential [V]'',
          Addition (U_n_ref P) (Multiplication (potential_scale P) n)),
       (''Positive electrode open circuit potential [V]'',
          Addition (U_p_ref P) (Multiplication (potential_scale P) p)),
       (''Average negative electrode open circuit potential [V]'',
          Addition (U_n_ref P) (Multiplication (potential_scale P) n_av)),
       (''Average positive electrode open circuit potential [V]'',
          Addition (U_p_ref P) (Multiplication (potential_scale P) p_av)),
       (''Average open circuit voltage [V]'',
          Subtraction
            (Addition (U_p_ref P) (Multiplication (potential_scale P) p_av))
            (Addition (U_n_ref P) (Multiplication (potential_scale P) n_av))),
       (''Measured open circuit voltage [V]'',
          Subtraction
            (Addition (U_p_ref P)
               (Multiplication (potential_scale P) (BoundaryValue p ''right'')))
            (Addition (U_n_ref P)
               (Multiplication (potential_scale P) (BoundaryValue n ''left''))))]"
proof -
  have keys: "map fst r = open_circuit_names @ map volts open_circuit_names"
    unfolding r_def by (rule open_circuit_keys)
  have len: "length r = 12"
    unfolding r_def by (simp add: get_derived_open_circuit_potentials_def Let_def)
  have "distinct (open_circuit_names @ map volts open_circuit_names)"
    by (simp add: open_circuit_names_def volts_def)
  with keys have dist: "distinct (map fst r)" by simp
  have items: "r =
      [(''Negative electrode open circuit potential'', n),
       (''Positive electrode open circuit potential'', p),
       (''Average negative electrode open circuit potential'', n_av),
       (''Average positive electrode open circuit potential'', p_av),
       (''Average open circuit voltage'', Subtraction p_av n_av),
       (''Measured open circuit voltage'',
          Subtraction (BoundaryValue p ''right'') (BoundaryValue n ''left'')),
       (''Negative electrode open circuit potential [V]'',
          Addition (U_n_ref P) (Multiplication (potential_scale P) n)),
       (''Positive electrode open circuit potential [V]'',
          Addition (U_p_ref P) (Multiplication (potential_scale P) p)),
       (''Average negative electrode open circuit potential [V]'',
          Addition (U_n_ref P) (Multiplication (potential_scale P) n_av)),
       (''Average positive electrode open circuit potential [V]'',
          Addition (U_p_ref P) (Multiplication (potential_scale P) p_av)),
       (''Average open circuit voltage [V]'',
          Subtraction
            (Addition (U_p_ref P) (Multiplication (potential_scale P) p_av))
            (Addition (U_n_ref P) (Multiplication (potential_scale P) n_av))),
       (''Measured open circuit voltage [V]'',
          Subtraction
            (Addition (U_p_ref P)
               (Multiplication (potential_scale P) (BoundaryValue p ''right'')))
            (Addition (U_n_ref P)
               (Multiplication (potential_scale P) (BoundaryValue n ''left''))))]"
    unfolding r_def P_def n_def p_def n_av_def p_av_def
    by (simp add: get_derived_open_circuit_potentials_def Let_def)
  from keys len dist items show ?thesis by blast
qed

text \<open>
  C6. For every pair of input expressions \<open>a\<close>, \<open>b\<close>, the dict returned by
  \<open>get_derived_reaction_overpotentials\<close> has exactly ten entries under ten different
  names, and they are: the two electrode overpotentials \<open>n\<close> and \<open>p\<close> (the input,
  broadcast when its domain is empty), their two spatial averages, the average
  overpotential as positive average minus negative average, and under each of these five
  names followed by \<open>[V]\<close> the product of \<open>potential_scale\<close> and the quantity. No
  entry is a boundary value: when the inputs, the parameters and the spatial variables
  contain no boundary-value node, neither does any entry.
\<close>

theorem reaction_overpotential_ten_entries:
  fixes pb self a b
  defines "r \<equiv> get_derived_reaction_overpotentials pb self a b"
    and "P \<equiv> set_of_parameters self"
    and "n \<equiv> (if domain pb a = [] then Broadcast a [''negative electrode''] else a)"
    and "p \<equiv> (if domain pb b = [] then Broadcast b [''positive electrode''] else b)"
    and "n_av \<equiv>
      Division
        (Integral (if domain pb a = [] then Broadcast a [''negative electrode''] else a)
           (standard_spatial_vars_x_n pb))
        (l_n (set_of_parameters self))"
    and "p_av \<equiv>
      Division
        (Integral (if domain pb b = [] then Broadcast b [''positive electrode''] else b)
           (standard_spatial_vars_x_p pb))
        (l_p (set_of_parameters self))"
  shows "length r = 10 \<and> distinct (map fst r) \<and>
    map fst r = reaction_overpotential_names @ map volts reaction_overpotential_names \<and>
    r =
      [(''Negative reaction overpotential'', n),
       (''Positive reaction overpotential'', p),
       (''Average negative reaction overpotential'', n_av),
       (''Average positive reaction overpotential'', p_av),
       (''Average reaction overpotential'', Subtraction p_av n_av),
       (''Negative reaction overpotential [V]'', Multiplication (potential_scale P) n),
       (''Positive reaction overpotential [V]'', Multiplication (potential_scale P) p),
       (''Average negative reaction overpotential [V]'',
          Multiplication (potential_scale P) n_av),
       (''Average positive reaction overpotential [V]'',
          Multiplication (potential_scale P) p_av),
       (''Average reaction overpotential [V]'',
          Multiplication (potential_scale P) (Subtraction p_av n_av))] \<and>
    (list_all (\<lambda>e. boundary_values e = 0)
       [a, b, l_n P, l_p P, potential_scale P,
        standard_spatial_vars_x_n pb, standard_spatial_vars_x_p pb]
     \<longrightarrow> list_all (\<lambda>e. boundary_values e = 0) (map snd r))"
proof -
  have keys: "map fst r
      = reaction_overpotential_names @ map volts reaction_overpotential_names"
    unfolding r_def by (rule reaction_overpotential_keys)
  have len: "length r = 10"
    unfolding r_def by (simp add: get_derived_reaction_overpotentials_def Let_def)
  have "distinct (reaction_overpotential_names @ map volts reaction_overpotential_names)"
    by (simp add: reaction_overpotential_names_def volts_def)
  with keys have dist: "distinct (map fst r)" by simp
  have items: "r =
      [(''Negative reaction overpotential'', n),
       (''Positive reaction overpotential'', p),
       (''Average negative reaction overpotential'', n_av),
       (''Average positive reaction overpotential'', p_av),
       (''Average reaction overpotential'', Subtraction p_av n_av),
       (''Negative reaction overpotential [V]'', Multiplication (potential_scale P) n),
       (''Positive reaction overpotential [V]'', Multiplication (potential_scale P) p),
       (''Average negative reaction overpotential [V]'',
          Multiplication (potential_scale P) n_av),
       (''Average positive reaction overpotential [V]'',
          Multiplication (potential_scale P) p_av),
       (''Average reaction overpotential [V]'',
          Multiplication (potential_scale P) (Subtraction p_av n_av))]"
    unfolding r_def P_def n_def p_def n_av_def p_av_def
    by (simp add: get_derived_reaction_overpotentials_def Let_def)
  have free: "list_all (\<lambda>e. boundary_values e = 0)
       [a, b, l_n P, l_p P, potential_scale P,
        standard_spatial_vars_x_n pb, standard_spatial_vars_x_p pb]
     \<longrightarrow> list_all (\<lambda>e. boundary_values e = 0) (map snd r)"
    unfolding r_def P_def
    by (simp add: get_derived_reaction_overpotentials_def Let_def)
  from keys len dist items free show ?thesis by blast
qed

theorem reaction_overpotential_ten_entries_witness:
  "list_all (\<lambda>e. boundary_values e = 0)
     [Symbol ''c_n'', Symbol ''U_p'',
      l_n (set_of_parameters example_submodel), l_p (set_of_parameters example_submodel),
      potential_scale (set_of_parameters example_submodel),
      standard_spatial_vars_x_n example_framework,
      standard_spatial_vars_x_p example_framework] \<and>
   length (get_derived_reaction_overpotentials example_framework example_submodel
             (Symbol ''c_n'') (Symbol ''U_p'')) = 10 \<and>
   list_all (\<lambda>e. boundary_values e = 0)
     (map snd (get_derived_reaction_overpotentials example_framework example_submodel
                 (Symbol ''c_n'') (Symbol ''U_p''))) \<and>
   entry (get_derived_reaction_overpotentials example_framework example_submodel
            (Symbol ''c_n'') (Symbol ''U_p''))
     ''Average reaction overpotential [V]''
   = Some (Multiplication (Symbol ''potential_scale'')
       (Subtraction
          (Division (Integral (Symbol ''U_p'') (Symbol ''x_p'')) (Symbol ''l_p''))
          (Division
             (Integral (Broadcast (Symbol ''c_n'') [''negative electrode''])
                (Symbol ''x_n''))
             (Symbol ''l_n''))))"
proof -
  have h: "list_all (\<lambda>e. boundary_values e = 0)
     [Symbol ''c_n'', Symbol ''U_p'',
      l_n (set_of_parameters example_submodel), l_p (set_of_parameters example_submodel),
      potential_scale (set_of_parameters example_submodel),
      standard_spatial_vars_x_n example_framework,
      standard_spatial_vars_x_p example_framework]"
    by (simp add: example_submodel_def example_framework_def)
  have d: "domain example_framework (Symbol ''c_n'') = []"
    "domain example_framework (Symbol ''U_p'') \<noteq> []"
    by (simp_all add: example_framework_def)
  note t = reaction_overpotential_ten_entries
        [of example_framework example_submodel "Symbol ''c_n''" "Symbol ''U_p''"]
  from t h have free: "list_all (\<lambda>e. boundary_values e = 0)
     (map snd (get_derived_reaction_overpotentials example_framework example_submodel
                 (Symbol ''c_n'') (Symbol ''U_p'')))"
    by blast
  from t have len: "length (get_derived_reaction_overpotentials example_framework
      example_submodel (Symbol ''c_n'') (Symbol ''U_p'')) = 10"
    by blast
  have e: "entry (get_derived_reaction_overpotentials example_framework example_submodel
            (Symbol ''c_n'') (Symbol ''U_p''))
     ''Average reaction overpotential [V]''
   = Some (Multiplication (Symbol ''potential_scale'')
       (Subtraction
          (Division (Integral (Symbol ''U_p'') (Symbol ''x_p'')) (Symbol ''l_p''))
          (Division
             (Integral (Broadcast (Symbol ''c_n'') [''negative electrode''])
                (Symbol ''x_n''))
             (Symbol ''l_n''))))"
    using d
    by (simp add: reaction_overpotential_entries)
      (simp add: example_submodel_def example_framework_def)
  from h len free e show ?thesis by blast
qed

section \<open>Dimensional quantities\<close>

text \<open>
  C7. In \<open>get_derived_reaction_overpotentials\<close>, each of the five entries whose name
  ends in \<open>[V]\<close> is the product of \<open>potential_scale\<close> and the entry of the same name
  without \<open>[V]\<close>; no reference potential is added.
\<close>

theorem reaction_overpotential_scaled_only:
  fixes pb self a b
  defines "r \<equiv> get_derived_reaction_overpotentials pb self a b"
    and "P \<equiv> set_of_parameters self"
  shows "list_all
      (\<lambda>name. \<exists>eta. entry r name = Some eta \<and>
         entry r (volts name) = Some (Multiplication (potential_scale P) eta))
      [''Negative reaction overpotential'',
       ''Positive reaction overpotential'',
       ''Average negative reaction overpotential'',
       ''Average positive reaction overpotential'',
       ''Average reaction overpotential'']"
  unfolding r_def P_def
  by (simp add: volts_def reaction_overpotential_entries)

text \<open>
  C10. Taking values commutes with the difference of the two electrodes. In the dict of
  \<open>get_derived_open_circuit_potentials\<close>, the value of \<open>Measured open circuit voltage [V]\<close>
  is the value of \<open>U_p_ref\<close> minus the value of \<open>U_n_ref\<close>, plus the value of
  \<open>potential_scale\<close> times the value of \<open>Measured open circuit voltage\<close>, and likewise
  for the two average voltages: the offset is the difference of the two reference
  potentials. In the dict of \<open>get_derived_reaction_overpotentials\<close>, the value of
  \<open>Average reaction overpotential [V]\<close> is the value of
  \<open>Average positive reaction overpotential [V]\<close> minus the value of
  \<open>Average negative reaction overpotential [V]\<close>. Values are taken at any point, under
  any meaning of the leaves, broadcasts, integrals and boundary values.
\<close>

theorem dimensional_difference_commutes:
  fixes pb self a b
  defines "ocp \<equiv> get_derived_open_circuit_potentials pb self a b"
    and "eta \<equiv> get_derived_reaction_overpotentials pb self a b"
    and "P \<equiv> set_of_parameters self"
  shows "(\<exists>ocv ocv_dim.
        entry ocp ''Measured open circuit voltage'' = Some ocv \<and>
        entry ocp ''Measured open circuit voltage [V]'' = Some ocv_dim \<and>
        (\<forall>ops x. evaluate ops ocv_dim x
           = (evaluate ops (U_p_ref P) x - evaluate ops (U_n_ref P) x)
             + evaluate ops (potential_scale P) x * evaluate ops ocv x)) \<and>
    (\<exists>ocv_av ocv_av_dim.
        entry ocp ''Average open circuit voltage'' = Some ocv_av \<and>
        entry ocp ''Average open circuit voltage [V]'' = Some ocv_av_dim \<and>
        (\<forall>ops x. evaluate ops ocv_av_dim x
           = (evaluate ops (U_p_ref P) x - evaluate ops (U_n_ref P) x)
             + evaluate ops (potential_scale P) x * evaluate ops ocv_av x)) \<and>
    (\<exists>eta_r_n_av_dim eta_r_p_av_dim eta_r_av_dim.
        entry eta ''Average negative reaction overpotential [V]'' = Some eta_r_n_av_dim \<and>
        entry eta ''Average positive reaction overpotential [V]'' = Some eta_r_p_av_dim \<and>
        entry eta ''Average reaction overpotential [V]'' = Some eta_r_av_dim \<and>
        (\<forall>ops x. evaluate ops eta_r_av_dim x
           = evaluate ops eta_r_p_av_dim x - evaluate ops eta_r_n_av_dim x))"
  unfolding ocp_def eta_def P_def
  by (simp add: open_circuit_entries reaction_overpotential_entries algebra_simps)

text \<open>
  C1, as stated: every entry of \<open>get_derived_open_circuit_potentials\<close> whose name ends
  in \<open>[V]\<close>, the two voltages included, is an electrode's reference potential (\<open>U_n_ref\<close>
  or \<open>U_p_ref\<close>) plus \<open>potential_scale\<close> times the entry without \<open>[V]\<close>. This fails
  for the two voltages. With the inputs \<open>c_n\<close> and \<open>c_p\<close> of the example, where the
  reference potentials are 1 and 4, the scale is 2 and the inputs are 1 and 3, both
  voltages are 2 and both dimensional voltages are 7, which is neither \<open>1 + 2 * 2\<close> nor
  \<open>4 + 2 * 2\<close>.
\<close>

theorem voltage_single_reference_counterexample:
  "evaluate example_operators
     (the (entry (get_derived_open_circuit_potentials example_framework example_submodel
                    (Symbol ''c_n'') (Symbol ''c_p''))
             ''Measured open circuit voltage [V]'')) ()
   \<noteq> evaluate example_operators (U_n_ref (set_of_parameters example_submodel)) ()
     + evaluate example_operators (potential_scale (set_of_parameters example_submodel)) ()
       * evaluate example_operators
           (the (entry (get_derived_open_circuit_potentials example_framework
                          example_submodel (Symbol ''c_n'') (Symbol ''c_p''))
                   ''Measured open circuit voltage'')) () \<and>
   evaluate example_operators
     (the (entry (get_derived_open_circuit_potentials example_framework example_submodel
                    (Symbol ''c_n'') (Symbol ''c_p''))
             ''Measured open circuit voltage [V]'')) ()
   \<noteq> evaluate example_operators (U_p_ref (set_of_parameters example_submodel)) ()
     + evaluate example_operators (potential_scale (set_of_parameters example_submodel)) ()
       * evaluate example_operators
           (the (entry (get_derived_open_circuit_potentials example_framework
                          example_submodel (Symbol ''c_n'') (Symbol ''c_p''))
                   ''Measured open circuit voltage'')) () \<and>
   evaluate example_operators
     (the (entry (get_derived_open_circuit_potentials example_framework example_submodel
                    (Symbol ''c_n'') (Symbol ''c_p''))
             ''Average open circuit voltage [V]'')) ()
   \<noteq> evaluate example_operators (U_n_ref (set_of_parameters example_submodel)) ()
     + evaluate example_operators (potential_scale (set_of_parameters example_submodel)) ()
       * evaluate example_operators
           (the (entry (get_derived_open_circuit_potentials example_framework
                          example_submodel (Symbol ''c_n'') (Symbol ''c_p''))
                   ''Average open circuit voltage'')) () \<and>
   evaluate example_operators
     (the (entry (get_derived_open_circuit_potentials example_framework example_submodel
                    (Symbol ''c_n'') (Symbol ''c_p''))
             ''Average open circuit voltage [V]'')) ()
   \<noteq> evaluate example_operators (U_p_ref (set_of_parameters example_submodel)) ()
     + evaluate example_operators (potential_scale (set_of_parameters example_submodel)) ()
       * evaluate example_operators
           (the (entry (get_derived_open_circuit_potentials example_framework
                          example_submodel (Symbol ''c_n'') (Symbol ''c_p''))
                   ''Average open circuit voltage'')) ()"
  by (simp add: open_circuit_entries example_framework_def example_submodel_def
      example_operators_def)

text \<open>
  C1, amended. Each of the four electrode entries whose name ends in \<open>[V]\<close> (the two
  potentials and their two averages) is the electrode's reference potential, \<open>U_n_ref\<close>
  for the negative and \<open>U_p_ref\<close> for the positive electrode, plus \<open>potential_scale\<close>
  times the entry without \<open>[V]\<close>. Each of the two voltage entries whose name ends in
  \<open>[V]\<close> is a difference of two such rescaled electrode quantities (the average one is
  the positive dimensional average entry minus the negative one), so its value is the
  value of \<open>U_p_ref\<close> minus the value of \<open>U_n_ref\<close>, plus the value of \<open>potential_scale\<close>
  times the value of the voltage entry without \<open>[V]\<close>.
\<close>

theorem open_circuit_rescaling:
  fixes pb self a b
  defines "r \<equiv> get_derived_open_circuit_potentials pb self a b"
    and "P \<equiv> set_of_parameters self"
  shows "\<exists>n p n_av p_av ocv_av ocv n_av_dim p_av_dim ocv_av_dim ocv_dim.
      entry r ''Negative electrode open circuit potential'' = Some n \<and>
      entry r ''Positive electrode open circuit potential'' = Some p \<and>
      entry r ''Average negative electrode open circuit potential'' = Some n_av \<and>
      entry r ''Average positive electrode open circuit potential'' = Some p_av \<and>
      entry r ''Average open circuit voltage'' = Some ocv_av \<and>
      entry r ''Measured open circuit voltage'' = Some ocv \<and>
      entry r ''Negative electrode open circuit potential [V]''
        = Some (Addition (U_n_ref P) (Multiplication (potential_scale P) n)) \<and>
      entry r ''Positive electrode open circuit potential [V]''
        = Some (Addition (U_p_ref P) (Multiplication (potential_scale P) p)) \<and>
      n_av_dim = Addition (U_n_ref P) (Multiplication (potential_scale P) n_av) \<and>
      p_av_dim = Addition (U_p_ref P) (Multiplication (potential_scale P) p_av) \<and>
      entry r ''Average negative electrode open circuit potential [V]'' = Some n_av_dim \<and>
      entry r ''Average positive electrode open circuit potential [V]'' = Some p_av_dim \<and>
      entry r ''Average open circuit voltage [V]'' = Some ocv_av_dim \<and>
      ocv_av_dim = Subtraction p_av_dim n_av_dim \<and>
      entry r ''Measured open circuit voltage [V]'' = Some ocv_dim \<and>
      ocv_dim =
        Subtraction
          (Addition (U_p_ref P)
             (Multiplication (potential_scale P) (BoundaryValue p ''right'')))
          (Addition (U_n_ref P)
             (Multiplication (potential_scale P) (BoundaryValue n ''left''))) \<and>
      (\<forall>ops x. evaluate ops ocv_av_dim x
         = (evaluate ops (U_p_ref P) x - evaluate ops (U_n_ref P) x)
           + evaluate ops (potential_scale P) x * evaluate ops ocv_av x) \<and>
      (\<forall>ops x. evaluate ops ocv_dim x
         = (evaluate ops (U_p_ref P) x - evaluate ops (U_n_ref P) x)
           + evaluate ops (potential_scale P) x * evaluate ops ocv x)"
  unfolding r_def P_def
  by (simp add: open_circuit_entries algebra_simps)

section \<open>Effects of a call\<close>

lemma expression_old:
  "r < length h \<Longrightarrow> expression (h @ ext) r = expression h r"
proof (induction r rule: less_induct)
  case (less r)
  have l: "r < length (h @ ext)" using less.prems by simp
  have n: "(h @ ext) ! r = h ! r" using less.prems by (simp add: nth_append)
  show ?case
    unfolding expression.simps [of "h @ ext" r] expression.simps [of h r]
    using less l n by (simp split: object.splits)
qed

lemma expression_new:
  "length h \<le> r \<Longrightarrow> r < length h + length ext \<Longrightarrow>
   expression (h @ ext) r =
     (case ext ! (r - length h) of
          SymbolObject name \<Rightarrow> Some (Symbol name)
        | BroadcastObject child dm \<Rightarrow>
            (if child < r then map_option (\<lambda>c. Broadcast c dm) (expression (h @ ext) child)
             else None)
        | IntegralObject child var \<Rightarrow>
            (if child < r \<and> var < r
             then both Integral (expression (h @ ext) child) (expression (h @ ext) var) else None)
        | BoundaryValueObject child side \<Rightarrow>
            (if child < r then map_option (\<lambda>c. BoundaryValue c side) (expression (h @ ext) child)
             else None)
        | AdditionObject left right \<Rightarrow>
            (if left < r \<and> right < r
             then both Addition (expression (h @ ext) left) (expression (h @ ext) right) else None)
        | SubtractionObject left right \<Rightarrow>
            (if left < r \<and> right < r
             then both Subtraction (expression (h @ ext) left) (expression (h @ ext) right) else None)
        | MultiplicationObject left right \<Rightarrow>
            (if left < r \<and> right < r
             then both Multiplication (expression (h @ ext) left) (expression (h @ ext) right) else None)
        | DivisionObject left right \<Rightarrow>
            (if left < r \<and> right < r
             then both Division (expression (h @ ext) left) (expression (h @ ext) right) else None))"
  by (subst expression.simps) (simp add: nth_append)


lemma expression_Some_valid: "expression h r = Some t \<Longrightarrow> r < length h"
  by (subst (asm) expression.simps) (simp split: if_splits)

lemma open_circuit_call:
  assumes rep: "represents s pb self"
    and a: "expression (heap s) a = Some ta"
    and b: "expression (heap s) b = Some tb"
  shows "\<exists>d s'. call_get_derived_open_circuit_potentials pb s a b = Some (d, s') \<and>
      submodel s' = submodel s \<and>
      standard_spatial_vars s' = standard_spatial_vars s \<and>
      (\<exists>ext. heap s' = heap s @ ext) \<and>
      read s' d = map (\<lambda>(name, t). (name, Some t))
                    (get_derived_open_circuit_potentials pb self ta tb)"
proof -
  let ?P = "set_of_parameters_object (submodel s)"
  note r = rep [unfolded represents_def Let_def]
  have v: "a < length (heap s)" "b < length (heap s)"
    "l_n_object ?P < length (heap s)" "l_p_object ?P < length (heap s)"
    "U_n_ref_object ?P < length (heap s)" "U_p_ref_object ?P < length (heap s)"
    "potential_scale_object ?P < length (heap s)"
    "x_n_object (standard_spatial_vars s) < length (heap s)"
    "x_p_object (standard_spatial_vars s) < length (heap s)"
    using a b r by (blast intro: expression_Some_valid)+
  show ?thesis
  proof (cases "domain pb ta = []")
    case na: True
    show ?thesis
    proof (cases "domain pb tb = []")
      case nb: True
      show ?thesis
        using na nb a b r v
        by (simp add: call_get_derived_open_circuit_potentials_def Let_def new_def
            domain_attribute_def read_def expression_old expression_new both_def
            get_derived_open_circuit_potentials_def)
    next
      case nb: False
      show ?thesis
        using na nb a b r v
        by (simp add: call_get_derived_open_circuit_potentials_def Let_def new_def
            domain_attribute_def read_def expression_old expression_new both_def
            get_derived_open_circuit_potentials_def)
    qed
  next
    case na: False
    show ?thesis
    proof (cases "domain pb tb = []")
      case nb: True
      show ?thesis
        using na nb a b r v
        by (simp add: call_get_derived_open_circuit_potentials_def Let_def new_def
            domain_attribute_def read_def expression_old expression_new both_def
            get_derived_open_circuit_potentials_def)
    next
      case nb: False
      show ?thesis
        using na nb a b r v
        by (simp add: call_get_derived_open_circuit_potentials_def Let_def new_def
            domain_attribute_def read_def expression_old expression_new both_def
            get_derived_open_circuit_potentials_def)
    qed
  qed
qed

lemma reaction_overpotential_call:
  assumes rep: "represents s pb self"
    and a: "expression (heap s) a = Some ta"
    and b: "expression (heap s) b = Some tb"
  shows "\<exists>d s'. call_get_derived_reaction_overpotentials pb s a b = Some (d, s') \<and>
      submodel s' = submodel s \<and>
      standard_spatial_vars s' = standard_spatial_vars s \<and>
      (\<exists>ext. heap s' = heap s @ ext) \<and>
      read s' d = map (\<lambda>(name, t). (name, Some t))
                    (get_derived_reaction_overpotentials pb self ta tb)"
proof -
  let ?P = "set_of_parameters_object (submodel s)"
  note r = rep [unfolded represents_def Let_def]
  have v: "a < length (heap s)" "b < length (heap s)"
    "l_n_object ?P < length (heap s)" "l_p_object ?P < length (heap s)"
    "potential_scale_object ?P < length (heap s)"
    "x_n_object (standard_spatial_vars s) < length (heap s)"
    "x_p_object (standard_spatial_vars s) < length (heap s)"
    using a b r by (blast intro: expression_Some_valid)+
  show ?thesis
  proof (cases "domain pb ta = []")
    case na: True
    show ?thesis
    proof (cases "domain pb tb = []")
      case nb: True
      show ?thesis
        using na nb a b r v
        by (simp add: call_get_derived_reaction_overpotentials_def Let_def new_def
            domain_attribute_def read_def expression_old expression_new both_def
            get_derived_reaction_overpotentials_def)
    next
      case nb: False
      show ?thesis
        using na nb a b r v
        by (simp add: call_get_derived_reaction_overpotentials_def Let_def new_def
            domain_attribute_def read_def expression_old expression_new both_def
            get_derived_reaction_overpotentials_def)
    qed
  next
    case na: False
    show ?thesis
    proof (cases "domain pb tb = []")
      case nb: True
      show ?thesis
        using na nb a b r v
        by (simp add: call_get_derived_reaction_overpotentials_def Let_def new_def
            domain_attribute_def read_def expression_old expression_new both_def
            get_derived_reaction_overpotentials_def)
    next
      case nb: False
      show ?thesis
        using na nb a b r v
        by (simp add: call_get_derived_reaction_overpotentials_def Let_def new_def
            domain_attribute_def read_def expression_old expression_new both_def
            get_derived_reaction_overpotentials_def)
    qed
  qed
qed

lemma expression_kept:
  assumes "expression h r = Some t"
  shows "expression (h @ ext) r = Some t"
  using assms expression_Some_valid [OF assms] by (simp add: expression_old)

lemma represents_kept:
  assumes "represents s pb self"
    and "heap s' = heap s @ ext"
    and "submodel s' = submodel s"
    and "standard_spatial_vars s' = standard_spatial_vars s"
  shows "represents s' pb self"
  using assms by (simp add: represents_def Let_def expression_kept)

lemma expression_leaf:
  "r < length h \<Longrightarrow> h ! r = SymbolObject name \<Longrightarrow> expression h r = Some (Symbol name)"
  by (subst expression.simps) simp

lemma dangling_reference_raises:
  "call_get_derived_open_circuit_potentials example_framework example_store 99 1 = None"
  "call_get_derived_reaction_overpotentials example_framework example_store 0 99 = None"
  by (simp_all add: call_get_derived_open_circuit_potentials_def
      call_get_derived_reaction_overpotentials_def Let_def domain_attribute_def new_def
      example_store_def example_framework_def expression_leaf
      expression.simps [of _ 99])

text \<open>
  C8. Let the store hold the parameters and spatial variables of a submodel, and let the
  two arguments refer to objects standing for the expressions \<open>ta\<close> and \<open>tb\<close>. Then a
  call of either method raises no error and returns a dict; it leaves the submodel with
  its \<open>set_of_parameters\<close> and the spatial variables as they were; every object that
  was in the store before the call, the two arguments among them, is unchanged (the
  call only adds objects); the returned dict stands for the expressions of the first
  model; and a second call with the same arguments returns a dict that stands for the
  same expressions.
\<close>

theorem calls_have_no_side_effects:
  assumes rep: "represents s pb self"
    and a: "expression (heap s) a = Some ta"
    and b: "expression (heap s) b = Some tb"
  shows "(\<exists>d s'. call_get_derived_open_circuit_potentials pb s a b = Some (d, s') \<and>
        submodel s' = submodel s \<and>
        standard_spatial_vars s' = standard_spatial_vars s \<and>
        take (length (heap s)) (heap s') = heap s \<and>
        expression (heap s') a = Some ta \<and> expression (heap s') b = Some tb \<and>
        read s' d = map (\<lambda>(name, t). (name, Some t))
                      (get_derived_open_circuit_potentials pb self ta tb) \<and>
        (\<exists>d2 s2. call_get_derived_open_circuit_potentials pb s' a b = Some (d2, s2) \<and>
           read s2 d2 = read s' d)) \<and>
    (\<exists>d s'. call_get_derived_reaction_overpotentials pb s a b = Some (d, s') \<and>
        submodel s' = submodel s \<and>
        standard_spatial_vars s' = standard_spatial_vars s \<and>
        take (length (heap s)) (heap s') = heap s \<and>
        expression (heap s') a = Some ta \<and> expression (heap s') b = Some tb \<and>
        read s' d = map (\<lambda>(name, t). (name, Some t))
                      (get_derived_reaction_overpotentials pb self ta tb) \<and>
        (\<exists>d2 s2. call_get_derived_reaction_overpotentials pb s' a b = Some (d2, s2) \<and>
           read s2 d2 = read s' d))"
proof (rule conjI)
  from open_circuit_call [OF rep a b]
  obtain d s' ext where
    c: "call_get_derived_open_circuit_potentials pb s a b = Some (d, s')"
    and sm: "submodel s' = submodel s"
    and sv: "standard_spatial_vars s' = standard_spatial_vars s"
    and h: "heap s' = heap s @ ext"
    and rd: "read s' d = map (\<lambda>(name, t). (name, Some t))
                      (get_derived_open_circuit_potentials pb self ta tb)"
    by blast
  have a': "expression (heap s') a = Some ta" and b': "expression (heap s') b = Some tb"
    using a b h by (simp_all add: expression_kept)
  have rep': "represents s' pb self"
    using rep h sm sv by (rule represents_kept)
  from open_circuit_call [OF rep' a' b']
  obtain d2 s2 where
    c2: "call_get_derived_open_circuit_potentials pb s' a b = Some (d2, s2)"
    and rd2: "read s2 d2 = map (\<lambda>(name, t). (name, Some t))
                      (get_derived_open_circuit_potentials pb self ta tb)"
    by blast
  have tk: "take (length (heap s)) (heap s') = heap s" using h by simp
  from c sm sv tk a' b' rd c2 rd2
  show "\<exists>d s'. call_get_derived_open_circuit_potentials pb s a b = Some (d, s') \<and>
        submodel s' = submodel s \<and>
        standard_spatial_vars s' = standard_spatial_vars s \<and>
        take (length (heap s)) (heap s') = heap s \<and>
        expression (heap s') a = Some ta \<and> expression (heap s') b = Some tb \<and>
        read s' d = map (\<lambda>(name, t). (name, Some t))
                      (get_derived_open_circuit_potentials pb self ta tb) \<and>
        (\<exists>d2 s2. call_get_derived_open_circuit_potentials pb s' a b = Some (d2, s2) \<and>
           read s2 d2 = read s' d)"
    by simp
next
  from reaction_overpotential_call [OF rep a b]
  obtain d s' ext where
    c: "call_get_derived_reaction_overpotentials pb s a b = Some (d, s')"
    and sm: "submodel s' = submodel s"
    and sv: "standard_spatial_vars s' = standard_spatial_vars s"
    and h: "heap s' = heap s @ ext"
    and rd: "read s' d = map (\<lambda>(name, t). (name, Some t))
                      (get_derived_reaction_overpotentials pb self ta tb)"
    by blast
  have a': "expression (heap s') a = Some ta" and b': "expression (heap s') b = Some tb"
    using a b h by (simp_all add: expression_kept)
  have rep': "represents s' pb self"
    using rep h sm sv by (rule represents_kept)
  from reaction_overpotential_call [OF rep' a' b']
  obtain d2 s2 where
    c2: "call_get_derived_reaction_overpotentials pb s' a b = Some (d2, s2)"
    and rd2: "read s2 d2 = map (\<lambda>(name, t). (name, Some t))
                      (get_derived_reaction_overpotentials pb self ta tb)"
    by blast
  have tk: "take (length (heap s)) (heap s') = heap s" using h by simp
  from c sm sv tk a' b' rd c2 rd2
  show "\<exists>d s'. call_get_derived_reaction_overpotentials pb s a b = Some (d, s') \<and>
        submodel s' = submodel s \<and>
        standard_spatial_vars s' = standard_spatial_vars s \<and>
        take (length (heap s)) (heap s') = heap s \<and>
        expression (heap s') a = Some ta \<and> expression (heap s') b = Some tb \<and>
        read s' d = map (\<lambda>(name, t). (name, Some t))
                      (get_derived_reaction_overpotentials pb self ta tb) \<and>
        (\<exists>d2 s2. call_get_derived_reaction_overpotentials pb s' a b = Some (d2, s2) \<and>
           read s2 d2 = read s' d)"
    by simp
qed

theorem calls_have_no_side_effects_witness:
  "represents example_store example_framework example_submodel \<and>
   expression (heap example_store) 0 = Some (Symbol ''c_n'') \<and>
   expression (heap example_store) 1 = Some (Symbol ''U_p'') \<and>
   (\<exists>d s'. call_get_derived_open_circuit_potentials example_framework example_store 0 1
              = Some (d, s') \<and>
      submodel s' = submodel example_store \<and>
      take (length (heap example_store)) (heap s') = heap example_store \<and>
      read s' d = map (\<lambda>(name, t). (name, Some t))
                    (get_derived_open_circuit_potentials example_framework example_submodel
                       (Symbol ''c_n'') (Symbol ''U_p''))) \<and>
   (\<exists>d s'. call_get_derived_reaction_overpotentials example_framework example_store 0 1
              = Some (d, s') \<and>
      submodel s' = submodel example_store \<and>
      take (length (heap example_store)) (heap s') = heap example_store \<and>
      read s' d = map (\<lambda>(name, t). (name, Some t))
                    (get_derived_reaction_overpotentials example_framework example_submodel
                       (Symbol ''c_n'') (Symbol ''U_p'')))"
proof -
  have rep: "represents example_store example_framework example_submodel"
    by (simp add: represents_def Let_def example_store_def example_framework_def
        example_submodel_def expression_leaf)
  have a: "expression (heap example_store) 0 = Some (Symbol ''c_n'')"
    by (simp add: example_store_def expression_leaf)
  have b: "expression (heap example_store) 1 = Some (Symbol ''U_p'')"
    by (simp add: example_store_def expression_leaf)
  show ?thesis
    using rep a b calls_have_no_side_effects [OF rep a b]
    by blast
qed

end
